theory Spec2Isabelle
  imports Complex_Main "HOL-Library.Multiset"
begin

section \<open>Run-time values as the comparison engine observes them\<close>

text \<open>
  The engine of godiff works on \<^verbatim>\<open>any\<close> values through package \<^verbatim>\<open>reflect\<close>.
  A value is modelled together with its dynamic type; memory that is reached through
  pointers, slices and maps lives in an explicit, read-only heap, so that shared and
  cyclic structures are expressible.
\<close>

subsection \<open>Kinds\<close>

text \<open>The constants of \<^verbatim>\<open>reflect.Kind\<close>, in their declaration order.\<close>

datatype kind =
    KInvalid | KBool
  | KInt | KInt8 | KInt16 | KInt32 | KInt64
  | KUint | KUint8 | KUint16 | KUint32 | KUint64 | KUintptr
  | KFloat32 | KFloat64 | KComplex64 | KComplex128
  | KArray | KChan | KFunc | KInterface | KMap | KPointer | KSlice | KString | KStruct | KUnsafePointer

fun kind_num :: "kind \<Rightarrow> nat" where
  "kind_num KInvalid = 0" | "kind_num KBool = 1"
| "kind_num KInt = 2" | "kind_num KInt8 = 3" | "kind_num KInt16 = 4" | "kind_num KInt32 = 5"
| "kind_num KInt64 = 6"
| "kind_num KUint = 7" | "kind_num KUint8 = 8" | "kind_num KUint16 = 9" | "kind_num KUint32 = 10"
| "kind_num KUint64 = 11" | "kind_num KUintptr = 12"
| "kind_num KFloat32 = 13" | "kind_num KFloat64 = 14"
| "kind_num KComplex64 = 15" | "kind_num KComplex128 = 16"
| "kind_num KArray = 17" | "kind_num KChan = 18" | "kind_num KFunc = 19"
| "kind_num KInterface = 20" | "kind_num KMap = 21" | "kind_num KPointer = 22"
| "kind_num KSlice = 23" | "kind_num KString = 24" | "kind_num KStruct = 25"
| "kind_num KUnsafePointer = 26"

text \<open>\<^verbatim>\<open>isBasicKind\<close>: \<^verbatim>\<open>k <= reflect.Complex128 || k == reflect.String\<close>.
  The comparison includes \<^verbatim>\<open>reflect.Invalid\<close>, the kind of a nil interface.\<close>

definition isBasicKind :: "kind \<Rightarrow> bool" where
  "isBasicKind k \<longleftrightarrow> kind_num k \<le> kind_num KComplex128 \<or> k = KString"

definition isNumericKind :: "kind \<Rightarrow> bool" where
  "isNumericKind k \<longleftrightarrow>
     (kind_num KInt \<le> kind_num k \<and> kind_num k \<le> kind_num KFloat64) \<or> k = KComplex64 \<or> k = KComplex128"

definition isIntegerKind :: "kind \<Rightarrow> bool" where
  "isIntegerKind k \<longleftrightarrow> kind_num KInt \<le> kind_num k \<and> kind_num k \<le> kind_num KUintptr"

definition isFloatKind :: "kind \<Rightarrow> bool" where
  "isFloatKind k \<longleftrightarrow> k = KFloat32 \<or> k = KFloat64"

definition isSignedIntKind :: "kind \<Rightarrow> bool" where
  "isSignedIntKind k \<longleftrightarrow> kind_num KInt \<le> kind_num k \<and> kind_num k \<le> kind_num KInt64"

definition isUnsignedIntKind :: "kind \<Rightarrow> bool" where
  "isUnsignedIntKind k \<longleftrightarrow> kind_num KUint \<le> kind_num k \<and> kind_num k \<le> kind_num KUintptr"

datatype int_kind = I0 | I8 | I16 | I32 | I64
datatype uint_kind = U0 | U8 | U16 | U32 | U64 | Uptr
datatype float_kind = F32 | F64
datatype complex_kind = C64 | C128

fun kind_of_int :: "int_kind \<Rightarrow> kind" where
  "kind_of_int I0 = KInt" | "kind_of_int I8 = KInt8" | "kind_of_int I16 = KInt16"
| "kind_of_int I32 = KInt32" | "kind_of_int I64 = KInt64"

fun kind_of_uint :: "uint_kind \<Rightarrow> kind" where
  "kind_of_uint U0 = KUint" | "kind_of_uint U8 = KUint8" | "kind_of_uint U16 = KUint16"
| "kind_of_uint U32 = KUint32" | "kind_of_uint U64 = KUint64"
| "kind_of_uint Uptr = KUintptr"

fun kind_of_float :: "float_kind \<Rightarrow> kind" where
  "kind_of_float F32 = KFloat32" | "kind_of_float F64 = KFloat64"

fun kind_of_complex :: "complex_kind \<Rightarrow> kind" where
  "kind_of_complex C64 = KComplex64" | "kind_of_complex C128 = KComplex128"

subsection \<open>Floating-point values\<close>

text \<open>
  \<^verbatim>\<open>reflect.Value.Float\<close> widens a float32 or float64 to float64. Only the
  comparison \<^verbatim>\<open>==\<close> is applied to the result, so a float is represented by what
  \<^verbatim>\<open>==\<close> distinguishes: not-a-number, the two infinities, or its finite value (the two
  zeros compare equal and are one value here).
\<close>

datatype fval = FNaN | FInf bool | FFin rat

fun feq :: "fval \<Rightarrow> fval \<Rightarrow> bool" where
  "feq FNaN _ = False"
| "feq _ FNaN = False"
| "feq (FInf a) (FInf b) = (a = b)"
| "feq (FFin x) (FFin y) = (x = y)"
| "feq _ _ = False"

text \<open>
  The conversion \<^verbatim>\<open>float64(i)\<close> of a 64-bit integer rounds to the nearest value
  with a 53-bit significand, ties to even. \<open>round53\<close> is that rounding on magnitudes.
\<close>

fun bit_len :: "nat \<Rightarrow> nat" where
  "bit_len n = (if n = 0 then 0 else Suc (bit_len (n div 2)))"

declare bit_len.simps [simp del]

definition round53 :: "nat \<Rightarrow> nat" where
  "round53 m =
     (if m < 2 ^ 53 then m
      else let e = bit_len m - 53;
               q = m div 2 ^ e;
               r = m mod 2 ^ e;
               half = 2 ^ (e - 1)
           in if half < r \<or> (r = half \<and> odd q) then (q + 1) * 2 ^ e else q * 2 ^ e)"

definition float64_of_int :: "int \<Rightarrow> fval" where
  "float64_of_int i = FFin (of_int (sgn i * int (round53 (nat \<bar>i\<bar>))))"

subsection \<open>Types\<close>

text \<open>
  A \<^verbatim>\<open>reflect.Type\<close> is represented by what the engine reads from it: its kind,
  its identity (the type's string, unique per type), \<^verbatim>\<open>Name()\<close>, and for a slice or
  array type whether \<^verbatim>\<open>Elem().Comparable()\<close> holds. The kind of a value follows from
  its constructor below; the descriptor carries the rest.
\<close>

datatype tdesc = TDesc (td_str: string) (td_name: string) (td_elem_comparable: bool)

datatype gotype = GoType (ty_kind: kind) (ty_desc: tdesc)

text \<open>
  A struct field as \<^verbatim>\<open>reflect.StructField\<close> shows it: \<^verbatim>\<open>Name\<close>,
  \<^verbatim>\<open>IsExported()\<close>, \<^verbatim>\<open>Tag.Get("diff")\<close> and \<^verbatim>\<open>Type.Kind()\<close>, the kind of
  the declared type (\<open>Interface\<close> for a field of interface type, whatever it holds).
\<close>

datatype sfield =
  SField (f_name: string) (f_exported: bool) (f_diff_tag: string) (f_kind: kind)

subsection \<open>Values and the heap\<close>

type_synonym addr = nat

text \<open>
  \<open>VNil\<close> is the nil interface, for which \<^verbatim>\<open>reflect.ValueOf\<close> returns the invalid
  Value. Address 0 is the nil pointer, nil slice, nil map, nil channel or nil func.
  Integers carry their mathematical value (what \<^verbatim>\<open>Int()\<close> and \<^verbatim>\<open>Uint()\<close> return
  after widening to 64 bits); the engine only compares and converts them.
  A \<^verbatim>\<open>time.Time\<close> is its instant together with the rest of its representation
  (monotonic reading and location), which \<^verbatim>\<open>Equal\<close> ignores.
\<close>

datatype val =
    VNil
  | VBool tdesc bool
  | VInt int_kind tdesc int
  | VUint uint_kind tdesc nat
  | VFloat float_kind tdesc fval
  | VComplex complex_kind tdesc fval fval
  | VString tdesc string
  | VUnsafePointer tdesc addr
  | VChan tdesc addr
  | VFunc tdesc addr
  | VPtr tdesc addr
  | VMap tdesc addr
  | VSlice tdesc addr
  | VArray tdesc "val list"
  | VStruct tdesc "(sfield \<times> val) list"
  | VTime int nat

datatype cell = CVal val | CArr "val list" | CMap "(val \<times> val) list"

type_synonym heap = "addr \<Rightarrow> cell option"

definition time_desc :: tdesc where
  "time_desc = TDesc ''time.Time'' ''Time'' True"

fun kind_of :: "val \<Rightarrow> kind" where
  "kind_of VNil = KInvalid"
| "kind_of (VBool _ _) = KBool"
| "kind_of (VInt k _ _) = kind_of_int k"
| "kind_of (VUint k _ _) = kind_of_uint k"
| "kind_of (VFloat k _ _) = kind_of_float k"
| "kind_of (VComplex k _ _ _) = kind_of_complex k"
| "kind_of (VString _ _) = KString"
| "kind_of (VUnsafePointer _ _) = KUnsafePointer"
| "kind_of (VChan _ _) = KChan"
| "kind_of (VFunc _ _) = KFunc"
| "kind_of (VPtr _ _) = KPointer"
| "kind_of (VMap _ _) = KMap"
| "kind_of (VSlice _ _) = KSlice"
| "kind_of (VArray _ _) = KArray"
| "kind_of (VStruct _ _) = KStruct"
| "kind_of (VTime _ _) = KStruct"

fun desc_of :: "val \<Rightarrow> tdesc" where
  "desc_of VNil = TDesc [] [] False"
| "desc_of (VBool d _) = d"
| "desc_of (VInt _ d _) = d"
| "desc_of (VUint _ d _) = d"
| "desc_of (VFloat _ d _) = d"
| "desc_of (VComplex _ d _ _) = d"
| "desc_of (VString d _) = d"
| "desc_of (VUnsafePointer d _) = d"
| "desc_of (VChan d _) = d"
| "desc_of (VFunc d _) = d"
| "desc_of (VPtr d _) = d"
| "desc_of (VMap d _) = d"
| "desc_of (VSlice d _) = d"
| "desc_of (VArray d _) = d"
| "desc_of (VStruct d _) = d"
| "desc_of (VTime _ _) = time_desc"

text \<open>\<^verbatim>\<open>reflect.ValueOf(v).Type()\<close>; the engine calls it on valid values only.\<close>

definition type_of :: "val \<Rightarrow> gotype" where
  "type_of v = GoType (kind_of v) (desc_of v)"

text \<open>\<^verbatim>\<open>Value.Pointer()\<close> of a pointer, map, slice, channel or func.\<close>

fun pointer_of :: "val \<Rightarrow> addr" where
  "pointer_of (VUnsafePointer _ a) = a"
| "pointer_of (VChan _ a) = a"
| "pointer_of (VFunc _ a) = a"
| "pointer_of (VPtr _ a) = a"
| "pointer_of (VMap _ a) = a"
| "pointer_of (VSlice _ a) = a"
| "pointer_of _ = 0"

text \<open>\<^verbatim>\<open>p.Elem().Interface()\<close> of a non-nil pointer: the value it points to.\<close>

definition ptr_elem :: "heap \<Rightarrow> addr \<Rightarrow> val" where
  "ptr_elem h a = (case h a of Some (CVal v) \<Rightarrow> v | _ \<Rightarrow> VNil)"

definition slice_elems :: "heap \<Rightarrow> addr \<Rightarrow> val list" where
  "slice_elems h a = (if a = 0 then [] else case h a of Some (CArr xs) \<Rightarrow> xs | _ \<Rightarrow> [])"

text \<open>The entries of a map, in the order in which \<^verbatim>\<open>MapKeys\<close> returns its keys
  (an order Go leaves unspecified; theorems hold for every order).\<close>

definition map_entries :: "heap \<Rightarrow> addr \<Rightarrow> (val \<times> val) list" where
  "map_entries h a = (if a = 0 then [] else case h a of Some (CMap es) \<Rightarrow> es | _ \<Rightarrow> [])"

text \<open>\<^verbatim>\<open>Len\<close> and \<^verbatim>\<open>Index(i).Interface()\<close> of a slice or an array.\<close>

fun seq_elems :: "heap \<Rightarrow> val \<Rightarrow> val list" where
  "seq_elems h (VSlice _ a) = slice_elems h a"
| "seq_elems h (VArray _ xs) = xs"
| "seq_elems h _ = []"

text \<open>The field values of a struct, in declaration order.\<close>

fun struct_fields :: "val \<Rightarrow> (sfield \<times> val) list" where
  "struct_fields (VStruct _ fs) = fs"
| "struct_fields _ = []"

definition struct_vals :: "val \<Rightarrow> val list" where
  "struct_vals v = map snd (struct_fields v)"

subsection \<open>Equality of interface values\<close>

text \<open>
  Go's \<^verbatim>\<open>==\<close> on two \<^verbatim>\<open>any\<close> values: equal dynamic types and equal values.
  It is also the equality of map keys. Slices, maps and funcs are not comparable (Go
  panics when they meet under \<^verbatim>\<open>==\<close> with one type); the engine guards every use by
  \<^verbatim>\<open>Comparable()\<close>, and \<open>hashable\<close> guards the use as a map key.
\<close>

fun go_eq :: "val \<Rightarrow> val \<Rightarrow> bool" where
  "go_eq VNil w = (case w of VNil \<Rightarrow> True | _ \<Rightarrow> False)"
| "go_eq (VBool d a) w = (case w of VBool e b \<Rightarrow> d = e \<and> a = b | _ \<Rightarrow> False)"
| "go_eq (VInt k d a) w = (case w of VInt l e b \<Rightarrow> k = l \<and> d = e \<and> a = b | _ \<Rightarrow> False)"
| "go_eq (VUint k d a) w = (case w of VUint l e b \<Rightarrow> k = l \<and> d = e \<and> a = b | _ \<Rightarrow> False)"
| "go_eq (VFloat k d a) w =
     (case w of VFloat l e b \<Rightarrow> k = l \<and> d = e \<and> feq a b | _ \<Rightarrow> False)"
| "go_eq (VComplex k d a a') w =
     (case w of VComplex l e b b' \<Rightarrow> k = l \<and> d = e \<and> feq a b \<and> feq a' b' | _ \<Rightarrow> False)"
| "go_eq (VString d a) w = (case w of VString e b \<Rightarrow> d = e \<and> a = b | _ \<Rightarrow> False)"
| "go_eq (VUnsafePointer d a) w =
     (case w of VUnsafePointer e b \<Rightarrow> d = e \<and> a = b | _ \<Rightarrow> False)"
| "go_eq (VChan d a) w = (case w of VChan e b \<Rightarrow> d = e \<and> a = b | _ \<Rightarrow> False)"
| "go_eq (VFunc d a) w = False"
| "go_eq (VPtr d a) w = (case w of VPtr e b \<Rightarrow> d = e \<and> a = b | _ \<Rightarrow> False)"
| "go_eq (VMap d a) w = False"
| "go_eq (VSlice d a) w = False"
| "go_eq (VArray d xs) w =
     (case w of VArray e ys \<Rightarrow> d = e \<and> list_all2 go_eq xs ys | _ \<Rightarrow> False)"
| "go_eq (VStruct d fs) w =
     (case w of VStruct e gs \<Rightarrow> d = e \<and> list_all2 go_eq (map snd fs) (map snd gs)
      | _ \<Rightarrow> False)"
| "go_eq (VTime i r) w = (case w of VTime j s \<Rightarrow> i = j \<and> r = s | _ \<Rightarrow> False)"

fun hashable :: "val \<Rightarrow> bool" where
  "hashable (VFunc _ _) = False"
| "hashable (VMap _ _) = False"
| "hashable (VSlice _ _) = False"
| "hashable (VArray _ xs) = list_all hashable xs"
| "hashable (VStruct _ fs) = list_all hashable (map snd fs)"
| "hashable _ = True"

text \<open>\<^verbatim>\<open>m.MapIndex(key)\<close>: the value stored under a key equal to \<open>k\<close>, if any.\<close>

fun map_index :: "(val \<times> val) list \<Rightarrow> val \<Rightarrow> val option" where
  "map_index [] k = None"
| "map_index ((k', v) # es) k = (if go_eq k' k then Some v else map_index es k)"

subsection \<open>\<^verbatim>\<open>reflect.DeepEqual\<close>\<close>

text \<open>
  The library function, after \<^verbatim>\<open>reflect/deepequal.go\<close>: a paired traversal that
  records the pairs of non-nil pointers, maps and slices it has entered and takes a
  pair it meets again as equal. The traversal is defined with fuel; \<open>None\<close> says
  that the fuel did not suffice.
\<close>

type_synonym visit = "addr \<times> addr \<times> gotype"

definition hard :: "val \<Rightarrow> val \<Rightarrow> bool" where
  "hard v1 v2 \<longleftrightarrow>
     kind_of v1 \<in> {KPointer, KMap, KSlice} \<and> pointer_of v1 \<noteq> 0 \<and> pointer_of v2 \<noteq> 0"

definition visit_key :: "val \<Rightarrow> val \<Rightarrow> visit" where
  "visit_key v1 v2 =
     (let a = pointer_of v1; b = pointer_of v2
      in (min a b, max a b, type_of v1))"

fun dve_list ::
  "(visit set \<Rightarrow> val \<Rightarrow> val \<Rightarrow> (bool \<times> visit set) option) \<Rightarrow>
    visit set \<Rightarrow> val list \<Rightarrow> val list \<Rightarrow> (bool \<times> visit set) option" where
  "dve_list rec vis [] [] = Some (True, vis)"
| "dve_list rec vis (x # xs) (y # ys) =
     (case rec vis x y of
        None \<Rightarrow> None
      | Some (b, vis') \<Rightarrow> if b then dve_list rec vis' xs ys else Some (False, vis'))"
| "dve_list rec vis _ _ = Some (False, vis)"

fun dve_map ::
  "(visit set \<Rightarrow> val \<Rightarrow> val \<Rightarrow> (bool \<times> visit set) option) \<Rightarrow>
    visit set \<Rightarrow> (val \<times> val) list \<Rightarrow> (val \<times> val) list \<Rightarrow> (bool \<times> visit set) option" where
  "dve_map rec vis [] es2 = Some (True, vis)"
| "dve_map rec vis ((k, x) # es1) es2 =
     (case map_index es2 k of
        None \<Rightarrow> Some (False, vis)
      | Some y \<Rightarrow>
          (case rec vis x y of
             None \<Rightarrow> None
           | Some (b, vis') \<Rightarrow> if b then dve_map rec vis' es1 es2 else Some (False, vis')))"

definition deepValueEqual_step ::
  "(visit set \<Rightarrow> val \<Rightarrow> val \<Rightarrow> (bool \<times> visit set) option) \<Rightarrow>
    heap \<Rightarrow> visit set \<Rightarrow> val \<Rightarrow> val \<Rightarrow> (bool \<times> visit set) option" where
  "deepValueEqual_step rec h vis v1 v2 =
     (if v1 = VNil \<or> v2 = VNil then Some (v1 = VNil \<and> v2 = VNil, vis)
      else if type_of v1 \<noteq> type_of v2 then Some (False, vis)
      else if hard v1 v2 \<and> visit_key v1 v2 \<in> vis then Some (True, vis)
      else
        let vis' = (if hard v1 v2 then insert (visit_key v1 v2) vis else vis)
        in case v1 of
             VArray _ xs \<Rightarrow> dve_list rec vis' xs (seq_elems h v2)
           | VSlice _ a \<Rightarrow>
               (let b = pointer_of v2
                in if (a = 0) \<noteq> (b = 0) then Some (False, vis')
                   else if length (slice_elems h a) \<noteq> length (slice_elems h b)
                     then Some (False, vis')
                   else if a = b then Some (True, vis')
                   else dve_list rec vis' (slice_elems h a) (slice_elems h b))
           | VPtr _ a \<Rightarrow>
               (let b = pointer_of v2
                in if a = b then Some (True, vis')
                   else if a = 0 \<or> b = 0 then Some (False, vis')
                   else rec vis' (ptr_elem h a) (ptr_elem h b))
           | VStruct _ fs \<Rightarrow> dve_list rec vis' (map snd fs) (struct_vals v2)
           | VMap _ a \<Rightarrow>
               (let b = pointer_of v2
                in if (a = 0) \<noteq> (b = 0) then Some (False, vis')
                   else if length (map_entries h a) \<noteq> length (map_entries h b)
                     then Some (False, vis')
                   else if a = b then Some (True, vis')
                   else dve_map rec vis' (map_entries h a) (map_entries h b))
           | VFunc _ a \<Rightarrow> Some (a = 0 \<and> pointer_of v2 = 0, vis')
           | _ \<Rightarrow> Some (go_eq v1 v2, vis'))"

primrec deepValueEqual ::
  "nat \<Rightarrow> heap \<Rightarrow> visit set \<Rightarrow> val \<Rightarrow> val \<Rightarrow> (bool \<times> visit set) option" where
  "deepValueEqual 0 h = (\<lambda>vis v1 v2. None)"
| "deepValueEqual (Suc n) h = deepValueEqual_step (deepValueEqual n h) h"

definition DeepEqual :: "nat \<Rightarrow> heap \<Rightarrow> val \<Rightarrow> val \<Rightarrow> bool option" where
  "DeepEqual n h x y =
     (if x = VNil \<or> y = VNil then Some (x = VNil \<and> y = VNil)
      else if type_of x \<noteq> type_of y then Some False
      else map_option fst (deepValueEqual n h {} x y))"


section \<open>Diff records and configuration\<close>

datatype go_error = Error string

datatype ChangeType =
  ChangeTypeAdded | ChangeTypeRemoved | ChangeTypeUpdated | ChangeTypeIDMismatch

record Diff =
  Path :: string
  Left :: val
  Right :: val

text \<open>The four shapes that \<^verbatim>\<open>DiffResult.Diffs\<close> holds: \<^verbatim>\<open>*Diff\<close>,
  \<^verbatim>\<open>*MapDiff\<close> (with \<^verbatim>\<open>Key\<close>), \<^verbatim>\<open>*SliceDiff\<close> (with \<^verbatim>\<open>Index\<close>) and
  \<^verbatim>\<open>*StructDiff\<close> (with \<^verbatim>\<open>FieldName\<close>).\<close>

datatype diff_entry =
    BaseDiff Diff
  | MapDiff Diff val ChangeType
  | SliceDiff Diff nat ChangeType
  | StructDiff Diff string ChangeType

record DiffResult =
  Diffs :: "diff_entry list"

definition AddDiff :: "string \<Rightarrow> val \<Rightarrow> val \<Rightarrow> DiffResult \<Rightarrow> DiffResult" where
  "AddDiff path l r res =
     res\<lparr>Diffs := Diffs res @ [BaseDiff \<lparr>Path = path, Left = l, Right = r\<rparr>]\<rparr>"

text \<open>
  A custom comparator returns \<^verbatim>\<open>(bool, error)\<close>. A type handler is one of the four
  that \<^verbatim>\<open>type_handlers.go\<close> defines, or a user's: its \<^verbatim>\<open>CanHandle\<close> and its
  \<^verbatim>\<open>Compare\<close>, which receives the values, the path and the diffs collected so far
  and returns its error and the diffs it leaves behind.
\<close>

type_synonym comparator = "heap \<Rightarrow> val \<Rightarrow> val \<Rightarrow> bool \<times> go_error option"

datatype handler =
    TimeHandler
  | InterfaceHandler
  | FunctionHandler
  | ChannelHandler
  | CustomHandler
      (custom_CanHandle: "gotype \<Rightarrow> bool")
      (custom_Compare:
        "heap \<Rightarrow> val \<Rightarrow> val \<Rightarrow> string \<Rightarrow> diff_entry list \<Rightarrow> go_error option \<times> diff_entry list")

text \<open>
  \<^verbatim>\<open>CompareConfig\<close>, with the fields that the engine and the declaration in the
  sources name. A nil map of comparators is the empty map and a nil handler slice the
  empty list; \<^verbatim>\<open>visitedPairs\<close> is never nil when the engine runs.
  \<open>CompareNumericValues\<close> is read by the engine of the options API; its declaration
  follows the engine's use of it.
\<close>

record CompareConfig =
  IgnoreFields :: "string list"
  IDFieldNames :: "string list"
  IgnoreSliceOrder :: bool
  CompareNumericValues :: bool
  CustomComparators :: "gotype \<Rightarrow> comparator option"
  TypeHandlers :: "handler list"
  MaxDepth :: int
  visitedPairs :: "(addr \<times> addr) set"
  ignoreFieldsSet :: "string set option"
  currentDepth :: int

definition DefaultTypeHandlers :: "handler list" where
  "DefaultTypeHandlers = [TimeHandler, InterfaceHandler, FunctionHandler, ChannelHandler]"

definition DefaultCompareConfig :: CompareConfig where
  "DefaultCompareConfig =
     \<lparr>IgnoreFields = [], IDFieldNames = [], IgnoreSliceOrder = False,
      CompareNumericValues = False, CustomComparators = (\<lambda>t. None),
      TypeHandlers = DefaultTypeHandlers, MaxDepth = 0, visitedPairs = {},
      ignoreFieldsSet = None, currentDepth = 0\<rparr>"

type_synonym CompareOption = "CompareConfig \<Rightarrow> CompareConfig"

definition WithIgnoreFields :: "string list \<Rightarrow> CompareOption" where
  "WithIgnoreFields names c = c\<lparr>IgnoreFields := names\<rparr>"

definition WithIgnoreSliceOrder :: CompareOption where
  "WithIgnoreSliceOrder c = c\<lparr>IgnoreSliceOrder := True\<rparr>"

definition WithCompareNumericValues :: CompareOption where
  "WithCompareNumericValues c = c\<lparr>CompareNumericValues := True\<rparr>"

definition WithCustomComparators :: "(gotype \<Rightarrow> comparator option) \<Rightarrow> CompareOption" where
  "WithCustomComparators comparators c = c\<lparr>CustomComparators := comparators\<rparr>"

definition WithTypeHandlers :: "handler list \<Rightarrow> CompareOption" where
  "WithTypeHandlers handlers c = c\<lparr>TypeHandlers := handlers\<rparr>"

definition WithMaxDepth :: "int \<Rightarrow> CompareOption" where
  "WithMaxDepth depth c = c\<lparr>MaxDepth := depth\<rparr>"

text \<open>
  How a call ends: it returns (\<open>Done\<close>), or it panics, or the fuel of the model is
  used up and the Go call has not returned (\<open>Timeout\<close>). A function that takes the
  configuration returns its error together with the configuration and the result as
  it has mutated them.
\<close>

datatype 'a run = Done 'a | Panic string | Timeout

type_synonym outcome = "(go_error option \<times> CompareConfig \<times> DiffResult) run"

text \<open>\<^verbatim>\<open>if err != nil { return err }\<close>, then go on.\<close>

definition and_then :: "outcome \<Rightarrow> (CompareConfig \<Rightarrow> DiffResult \<Rightarrow> outcome) \<Rightarrow> outcome" where
  "and_then r f = (case r of Done (None, c, d) \<Rightarrow> f c d | _ \<Rightarrow> r)"

text \<open>A function without the configuration and without an error of its own, seen
  from a caller that holds the configuration.\<close>

definition returns_nil :: "CompareConfig \<Rightarrow> DiffResult run \<Rightarrow> outcome" where
  "returns_nil cfg r =
     (case r of Done d \<Rightarrow> Done (None, cfg, d) | Panic s \<Rightarrow> Panic s | Timeout \<Rightarrow> Timeout)"

definition add_diff :: "diff_entry \<Rightarrow> DiffResult \<Rightarrow> DiffResult" where
  "add_diff e res = res\<lparr>Diffs := Diffs res @ [e]\<rparr>"

type_synonym dispatcher = "CompareConfig \<Rightarrow> string \<Rightarrow> val \<Rightarrow> val \<Rightarrow> DiffResult \<Rightarrow> outcome"

type_synonym deep_equal = "val \<Rightarrow> val \<Rightarrow> bool option"

section \<open>Strings\<close>

definition digit_char :: "nat \<Rightarrow> char" where
  "digit_char d = ''0123456789'' ! (d mod 10)"

fun itoa :: "nat \<Rightarrow> string" where
  "itoa n = (if n < 10 then [digit_char n] else itoa (n div 10) @ [digit_char (n mod 10)])"

declare itoa.simps [simp del]

text \<open>
  \<^verbatim>\<open>fmt.Sprintf("%v", key)\<close> for the keys whose rendering is plain: strings, booleans
  and integers. Other keys are rendered by \<^verbatim>\<open>fmt\<close> in ways no property below reads
  (floats in \<^verbatim>\<open>%g\<close>, pointers as addresses); they are shown as a question mark.
\<close>

fun sprint_v :: "val \<Rightarrow> string" where
  "sprint_v (VString _ s) = s"
| "sprint_v (VBool _ b) = (if b then ''true'' else ''false'')"
| "sprint_v (VInt _ _ i) = (if i < 0 then CHR ''-'' # itoa (nat (- i)) else itoa (nat i))"
| "sprint_v (VUint _ _ n) = itoa n"
| "sprint_v VNil = ''<nil>''"
| "sprint_v _ = ''?''"

fun split_on :: "char \<Rightarrow> string \<Rightarrow> string list" where
  "split_on c [] = [[]]"
| "split_on c (x # xs) =
     (if x = c then [] # split_on c xs
      else case split_on c xs of w # ws \<Rightarrow> (x # w) # ws | [] \<Rightarrow> [[x]])"

definition is_space :: "char \<Rightarrow> bool" where
  "is_space c \<longleftrightarrow> c \<in> {CHR '' '', CHR 0x09, CHR 0x0A, CHR 0x0B, CHR 0x0C, CHR 0x0D}"

text \<open>\<^verbatim>\<open>strings.TrimSpace\<close> on ASCII white space.\<close>

definition TrimSpace :: "string \<Rightarrow> string" where
  "TrimSpace s = rev (dropWhile is_space (rev (dropWhile is_space s)))"

definition hasDiffTag :: "string \<Rightarrow> string \<Rightarrow> bool" where
  "hasDiffTag diffTag tagValue \<longleftrightarrow>
     (if diffTag = [] then False
      else list_ex (\<lambda>tag. TrimSpace tag = tagValue) (split_on (CHR '','') diffTag))"

section \<open>Numeric coercion\<close>

fun int_val :: "val \<Rightarrow> int" where
  "int_val (VInt _ _ i) = i"
| "int_val _ = 0"

fun uint_val :: "val \<Rightarrow> nat" where
  "uint_val (VUint _ _ n) = n"
| "uint_val _ = 0"

fun float_val :: "val \<Rightarrow> fval" where
  "float_val (VFloat _ _ x) = x"
| "float_val _ = FFin 0"

fun complex_val :: "val \<Rightarrow> fval \<times> fval" where
  "complex_val (VComplex _ _ re im) = (re, im)"
| "complex_val _ = (FFin 0, FFin 0)"

definition numericValuesEqual :: "val \<Rightarrow> val \<Rightarrow> bool" where
  "numericValuesEqual leftVal rightVal =
     (let leftKind = kind_of leftVal; rightKind = kind_of rightVal
      in if isSignedIntKind leftKind \<and> isSignedIntKind rightKind
           then int_val leftVal = int_val rightVal
         else if isUnsignedIntKind leftKind \<and> isUnsignedIntKind rightKind
           then uint_val leftVal = uint_val rightVal
         else if isFloatKind leftKind \<and> isFloatKind rightKind
           then feq (float_val leftVal) (float_val rightVal)
         else if isSignedIntKind leftKind \<and> isUnsignedIntKind rightKind
           then (if int_val leftVal < 0 then False
                 else nat (int_val leftVal) = uint_val rightVal)
         else if isUnsignedIntKind leftKind \<and> isSignedIntKind rightKind
           then (if int_val rightVal < 0 then False
                 else uint_val leftVal = nat (int_val rightVal))
         else if isIntegerKind leftKind \<and> isFloatKind rightKind
           then feq (if isSignedIntKind leftKind then float64_of_int (int_val leftVal)
                     else float64_of_int (int (uint_val leftVal)))
                    (float_val rightVal)
         else if isFloatKind leftKind \<and> isIntegerKind rightKind
           then feq (float_val leftVal)
                    (if isSignedIntKind rightKind then float64_of_int (int_val rightVal)
                     else float64_of_int (int (uint_val rightVal)))
         else if (leftKind = KComplex64 \<or> leftKind = KComplex128) \<and>
                 (rightKind = KComplex64 \<or> rightKind = KComplex128)
           then feq (fst (complex_val leftVal)) (fst (complex_val rightVal)) \<and>
                feq (snd (complex_val leftVal)) (snd (complex_val rightVal))
         else False)"


section \<open>The comparison engine\<close>

text \<open>
  The functions of the engine, in the revision with the options API
  (\<^verbatim>\<open>Compare(left, right, opts...)\<close>). The recursive call of \<^verbatim>\<open>compareValues\<close> is
  the parameter \<open>rec\<close> and \<^verbatim>\<open>reflect.DeepEqual\<close> the parameter \<open>deq\<close>; the knot is
  tied in \<open>compareValues\<close> below.
\<close>

definition handleInvalidValues :: "string \<Rightarrow> val \<Rightarrow> val \<Rightarrow> DiffResult \<Rightarrow> bool \<times> DiffResult" where
  "handleInvalidValues path left right res =
     (if left = VNil \<and> right = VNil then (True, res)
      else if left = VNil then (True, AddDiff path VNil right res)
      else if right = VNil then (True, AddDiff path left VNil res)
      else (False, res))"

definition isFieldIgnored :: "string \<Rightarrow> string \<Rightarrow> gotype \<Rightarrow> CompareConfig \<Rightarrow> bool" where
  "isFieldIgnored fieldPath fieldName structType config =
     (if length (IgnoreFields config) = 0 then False
      else
        let structTypeName = td_name (ty_desc structType);
            typeQualifiedName = structTypeName @ ''.'' @ fieldName
        in case ignoreFieldsSet config of
             Some s \<Rightarrow>
               if fieldPath \<in> s then True
               else if fieldName \<in> s then True
               else if structTypeName \<noteq> [] \<and> typeQualifiedName \<in> s then True
               else False
           | None \<Rightarrow>
               if fieldPath \<in> set (IgnoreFields config) then True
               else if fieldName \<in> set (IgnoreFields config) then True
               else if structTypeName \<noteq> [] \<and> typeQualifiedName \<in> set (IgnoreFields config)
                 then True
               else False)"

subsection \<open>Slices without order\<close>

text \<open>The inner loop of \<^verbatim>\<open>compareSlicesUnordered\<close>: the first right element that is
  not yet matched and deeply equal to \<open>x\<close> is marked.\<close>

fun match_first ::
  "deep_equal \<Rightarrow> val \<Rightarrow> val list \<Rightarrow> bool list \<Rightarrow> (bool \<times> bool list) option" where
  "match_first deq x [] ms = Some (False, ms)"
| "match_first deq x (y # ys) [] = Some (False, [])"
| "match_first deq x (y # ys) (m # ms) =
     (if m then map_option (\<lambda>(f, ms'). (f, m # ms')) (match_first deq x ys ms)
      else case deq x y of
             None \<Rightarrow> None
           | Some True \<Rightarrow> Some (True, True # ms)
           | Some False \<Rightarrow> map_option (\<lambda>(f, ms'). (f, m # ms')) (match_first deq x ys ms))"

fun unordered_left ::
  "deep_equal \<Rightarrow> string \<Rightarrow> val list \<Rightarrow> val list \<Rightarrow> bool list \<Rightarrow> diff_entry list \<Rightarrow>
    (bool list \<times> diff_entry list) option" where
  "unordered_left deq path [] rs ms ds = Some (ms, ds)"
| "unordered_left deq path (x # xs) rs ms ds =
     (case match_first deq x rs ms of
        None \<Rightarrow> None
      | Some (found, ms') \<Rightarrow>
          unordered_left deq path xs rs ms'
            (if found then ds else ds @ [BaseDiff \<lparr>Path = path, Left = x, Right = VNil\<rparr>]))"

fun unordered_right :: "string \<Rightarrow> val list \<Rightarrow> bool list \<Rightarrow> diff_entry list" where
  "unordered_right path (y # ys) (m # ms) =
     (if m then [] else [BaseDiff \<lparr>Path = path, Left = VNil, Right = y\<rparr>])
       @ unordered_right path ys ms"
| "unordered_right path _ _ = []"

definition compareSlicesUnordered ::
  "deep_equal \<Rightarrow> heap \<Rightarrow> string \<Rightarrow> val \<Rightarrow> val \<Rightarrow> DiffResult \<Rightarrow> DiffResult run" where
  "compareSlicesUnordered deq h path leftVal rightVal res =
     (let ls = seq_elems h leftVal; rs = seq_elems h rightVal
      in case unordered_left deq path ls rs (replicate (length rs) False) (Diffs res) of
           None \<Rightarrow> Timeout
         | Some (rightMatched, ds) \<Rightarrow>
             Done (res\<lparr>Diffs := ds @ unordered_right path rs rightMatched\<rparr>))"

definition compareSlicesSimple ::
  "deep_equal \<Rightarrow> heap \<Rightarrow> string \<Rightarrow> val \<Rightarrow> val \<Rightarrow> DiffResult \<Rightarrow> DiffResult run" where
  "compareSlicesSimple = compareSlicesUnordered"

definition compareSlicesWithDeepEqual ::
  "deep_equal \<Rightarrow> heap \<Rightarrow> string \<Rightarrow> val \<Rightarrow> val \<Rightarrow> DiffResult \<Rightarrow> DiffResult run" where
  "compareSlicesWithDeepEqual = compareSlicesUnordered"

text \<open>
  The counting maps \<^verbatim>\<open>map[any]int\<close> of \<^verbatim>\<open>compareSlicesByValue\<close>. A key is found by
  \<^verbatim>\<open>==\<close>; \<^verbatim>\<open>m[elem]++\<close> on an element whose dynamic type is not comparable panics.
  Go ranges over a map in an unspecified order; the model ranges in insertion order.
\<close>

fun count_lookup :: "(val \<times> nat) list \<Rightarrow> val \<Rightarrow> nat" where
  "count_lookup [] e = 0"
| "count_lookup ((k, c) # m) e = (if go_eq k e then c else count_lookup m e)"

fun count_incr :: "(val \<times> nat) list \<Rightarrow> val \<Rightarrow> (val \<times> nat) list" where
  "count_incr [] e = [(e, 1)]"
| "count_incr ((k, c) # m) e = (if go_eq k e then (k, c + 1) # m else (k, c) # count_incr m e)"

definition count_elems :: "val list \<Rightarrow> (val \<times> nat) list" where
  "count_elems xs = fold (\<lambda>e m. count_incr m e) xs []"

definition removed_diffs :: "string \<Rightarrow> (val \<times> nat) list \<Rightarrow> (val \<times> nat) list \<Rightarrow> diff_entry list" where
  "removed_diffs path leftCounts rightCounts =
     concat (map (\<lambda>(elem, leftCount).
        let rightCount = count_lookup rightCounts elem
        in if leftCount > rightCount
           then replicate (leftCount - rightCount)
                  (BaseDiff \<lparr>Path = path, Left = elem, Right = VNil\<rparr>)
           else []) leftCounts)"

definition added_diffs :: "string \<Rightarrow> (val \<times> nat) list \<Rightarrow> (val \<times> nat) list \<Rightarrow> diff_entry list" where
  "added_diffs path leftCounts rightCounts =
     concat (map (\<lambda>(elem, rightCount).
        let leftCount = count_lookup leftCounts elem
        in if rightCount > leftCount
           then replicate (rightCount - leftCount)
                  (BaseDiff \<lparr>Path = path, Left = VNil, Right = elem\<rparr>)
           else []) rightCounts)"

definition compareSlicesByValue ::
  "deep_equal \<Rightarrow> heap \<Rightarrow> string \<Rightarrow> val \<Rightarrow> val \<Rightarrow> DiffResult \<Rightarrow> DiffResult run" where
  "compareSlicesByValue deq h path leftVal rightVal res =
     (if \<not> td_elem_comparable (desc_of leftVal)
        then compareSlicesWithDeepEqual deq h path leftVal rightVal res
      else
        let ls = seq_elems h leftVal; rs = seq_elems h rightVal
        in if length ls \<le> 5 \<and> length rs \<le> 5
             then compareSlicesSimple deq h path leftVal rightVal res
           else if \<not> list_all hashable (ls @ rs)
             then Panic ''runtime error: hash of unhashable type''
           else
             let leftCounts = count_elems ls; rightCounts = count_elems rs
             in Done (res\<lparr>Diffs := Diffs res @ removed_diffs path leftCounts rightCounts
                                      @ added_diffs path leftCounts rightCounts\<rparr>))"

definition compareSlicesAdvanced ::
  "deep_equal \<Rightarrow> heap \<Rightarrow> string \<Rightarrow> val \<Rightarrow> val \<Rightarrow> DiffResult \<Rightarrow> DiffResult run" where
  "compareSlicesAdvanced deq h path leftVal rightVal res =
     (if leftVal = VNil \<and> rightVal = VNil then Done res
      else if leftVal = VNil then Done (AddDiff path VNil rightVal res)
      else if rightVal = VNil then Done (AddDiff path leftVal VNil res)
      else if type_of leftVal \<noteq> type_of rightVal then Done (AddDiff path leftVal rightVal res)
      else compareSlicesByValue deq h path leftVal rightVal res)"

subsection \<open>Slices in order\<close>

fun compareSlices_loop ::
  "dispatcher \<Rightarrow> deep_equal \<Rightarrow> string \<Rightarrow> nat \<Rightarrow> val list \<Rightarrow> val list \<Rightarrow>
    CompareConfig \<Rightarrow> DiffResult \<Rightarrow> outcome" where
  "compareSlices_loop rec deq path i [] [] config res = Done (None, config, res)"
| "compareSlices_loop rec deq path i (leftElem # ls) (rightElem # rs) config res =
     (let recurse =
            and_then (rec config (path @ ''['' @ itoa i @ '']'') leftElem rightElem res)
              (compareSlices_loop rec deq path (Suc i) ls rs)
      in if isBasicKind (kind_of leftElem) then
           (case deq leftElem rightElem of
              None \<Rightarrow> Timeout
            | Some False \<Rightarrow>
                compareSlices_loop rec deq path (Suc i) ls rs config
                  (add_diff (SliceDiff \<lparr>Path = path, Left = leftElem, Right = rightElem\<rparr>
                               i ChangeTypeUpdated) res)
            | Some True \<Rightarrow> recurse)
         else recurse)"
| "compareSlices_loop rec deq path i (leftElem # ls) [] config res =
     compareSlices_loop rec deq path (Suc i) ls [] config
       (add_diff (SliceDiff \<lparr>Path = path, Left = leftElem, Right = VNil\<rparr> i ChangeTypeRemoved) res)"
| "compareSlices_loop rec deq path i [] (rightElem # rs) config res =
     compareSlices_loop rec deq path (Suc i) [] rs config
       (add_diff (SliceDiff \<lparr>Path = path, Left = VNil, Right = rightElem\<rparr> i ChangeTypeAdded) res)"

definition compareSlices ::
  "dispatcher \<Rightarrow> deep_equal \<Rightarrow> heap \<Rightarrow> string \<Rightarrow> val \<Rightarrow> val \<Rightarrow>
    CompareConfig \<Rightarrow> DiffResult \<Rightarrow> outcome" where
  "compareSlices rec deq h path leftVal rightVal config res =
     (if IgnoreSliceOrder config
        then returns_nil config (compareSlicesAdvanced deq h path leftVal rightVal res)
      else compareSlices_loop rec deq path 0 (seq_elems h leftVal) (seq_elems h rightVal)
             config res)"


subsection \<open>Maps\<close>

definition map_diff :: "string \<Rightarrow> val \<Rightarrow> val \<Rightarrow> val \<Rightarrow> ChangeType \<Rightarrow> diff_entry" where
  "map_diff elementPath l r key ct = MapDiff \<lparr>Path = elementPath, Left = l, Right = r\<rparr> key ct"

text \<open>
  The first loop of \<^verbatim>\<open>compareMaps\<close>, over the keys of the left map: its body for
  one key, then the loop.
  \<^verbatim>\<open>MapIndex\<close> of a key that is not equal to itself (a NaN) is the invalid Value, whose
  \<^verbatim>\<open>Interface()\<close> panics; so does \<^verbatim>\<open>Type()\<close> of the invalid Value that
  \<^verbatim>\<open>reflect.ValueOf\<close> returns for a nil interface stored in the map.
\<close>

definition compareMaps_entry ::
  "dispatcher \<Rightarrow> deep_equal \<Rightarrow> string \<Rightarrow> (val \<times> val) list \<Rightarrow> (val \<times> val) list \<Rightarrow>
    val \<Rightarrow> CompareConfig \<Rightarrow> DiffResult \<Rightarrow> outcome" where
  "compareMaps_entry rec deq path lm rm key config res =
     (let elementPath = path @ ''['' @ sprint_v key @ '']''
      in case map_index lm key of
           None \<Rightarrow> Panic ''reflect: call of reflect.Value.Interface on zero Value''
         | Some leftInterface \<Rightarrow>
             (case map_index rm key of
                None \<Rightarrow>
                  Done (None, config,
                        add_diff (map_diff elementPath leftInterface VNil key ChangeTypeRemoved) res)
              | Some rightInterface \<Rightarrow>
                  if leftInterface = VNil \<or> rightInterface = VNil
                    then Panic ''reflect: call of reflect.Value.Type on zero Value''
                  else if type_of leftInterface \<noteq> type_of rightInterface then
                    (if CompareNumericValues config \<and> isNumericKind (kind_of leftInterface)
                          \<and> isNumericKind (kind_of rightInterface)
                          \<and> numericValuesEqual leftInterface rightInterface
                       then Done (None, config, res)
                     else Done (None, config,
                                add_diff (map_diff elementPath leftInterface rightInterface key
                                            ChangeTypeUpdated) res))
                  else if isBasicKind (kind_of leftInterface) then
                    (case deq leftInterface rightInterface of
                       None \<Rightarrow> Timeout
                     | Some True \<Rightarrow> Done (None, config, res)
                     | Some False \<Rightarrow>
                         Done (None, config,
                               add_diff (map_diff elementPath leftInterface rightInterface key
                                           ChangeTypeUpdated) res))
                  else
                    (case rec config elementPath leftInterface rightInterface \<lparr>Diffs = []\<rparr> of
                       Done (None, config', tempResult) \<Rightarrow>
                         Done (None, config', res\<lparr>Diffs := Diffs res @ Diffs tempResult\<rparr>)
                     | Done (Some err, config', tempResult) \<Rightarrow> Done (Some err, config', res)
                     | Panic s \<Rightarrow> Panic s
                     | Timeout \<Rightarrow> Timeout)))"

fun compareMaps_left ::
  "dispatcher \<Rightarrow> deep_equal \<Rightarrow> string \<Rightarrow> (val \<times> val) list \<Rightarrow> (val \<times> val) list \<Rightarrow>
    val list \<Rightarrow> CompareConfig \<Rightarrow> DiffResult \<Rightarrow> outcome" where
  "compareMaps_left rec deq path lm rm [] config res = Done (None, config, res)"
| "compareMaps_left rec deq path lm rm (key # keys) config res =
     and_then (compareMaps_entry rec deq path lm rm key config res)
       (compareMaps_left rec deq path lm rm keys)"

fun compareMaps_right ::
  "string \<Rightarrow> (val \<times> val) list \<Rightarrow> (val \<times> val) list \<Rightarrow> val list \<Rightarrow> DiffResult \<Rightarrow> DiffResult run" where
  "compareMaps_right path lm rm [] res = Done res"
| "compareMaps_right path lm rm (key # keys) res =
     (if map_index lm key = None then
        (case map_index rm key of
           None \<Rightarrow> Panic ''reflect: call of reflect.Value.Interface on zero Value''
         | Some rightInterface \<Rightarrow>
             compareMaps_right path lm rm keys
               (add_diff (map_diff (path @ ''['' @ sprint_v key @ '']'') VNil rightInterface key
                            ChangeTypeAdded) res))
      else compareMaps_right path lm rm keys res)"

definition compareMaps ::
  "dispatcher \<Rightarrow> deep_equal \<Rightarrow> heap \<Rightarrow> string \<Rightarrow> val \<Rightarrow> val \<Rightarrow>
    CompareConfig \<Rightarrow> DiffResult \<Rightarrow> outcome" where
  "compareMaps rec deq h path leftVal rightVal config res =
     (let lm = map_entries h (pointer_of leftVal); rm = map_entries h (pointer_of rightVal)
      in and_then (compareMaps_left rec deq path lm rm (map fst lm) config res)
           (\<lambda>config' res'. returns_nil config' (compareMaps_right path lm rm (map fst rm) res')))"

subsection \<open>Pointers\<close>

definition comparePointers ::
  "dispatcher \<Rightarrow> heap \<Rightarrow> string \<Rightarrow> val \<Rightarrow> val \<Rightarrow> CompareConfig \<Rightarrow> DiffResult \<Rightarrow> outcome" where
  "comparePointers rec h path leftVal rightVal config res =
     (let leftPtr = pointer_of leftVal; rightPtr = pointer_of rightVal
      in if leftPtr = 0 \<and> rightPtr = 0 then Done (None, config, res)
         else if leftPtr = 0 then rec config path VNil (ptr_elem h rightPtr) res
         else if rightPtr = 0 then rec config path (ptr_elem h leftPtr) VNil res
         else
           let pairKey = (leftPtr, rightPtr)
           in if pairKey \<in> visitedPairs config then Done (None, config, res)
              else
                (case rec (config\<lparr>visitedPairs := insert pairKey (visitedPairs config)\<rparr>) path
                        (ptr_elem h leftPtr) (ptr_elem h rightPtr) res of
                   Done (err, config', res') \<Rightarrow>
                     Done (err, config'\<lparr>visitedPairs := visitedPairs config' - {pairKey}\<rparr>, res')
                 | Panic s \<Rightarrow> Panic s
                 | Timeout \<Rightarrow> Timeout))"

subsection \<open>Structs\<close>

text \<open>
  The loop of \<^verbatim>\<open>compareStructs\<close> over the field indices: its body for field
  \<open>i\<close>, then the loop, which an error ends. For a slice field tagged
  \<^verbatim>\<open>ignoreOrder\<close> the engine compares under a copy of the configuration that shares
  the map \<^verbatim>\<open>visitedPairs\<close> with the original and nothing else that is mutable.
\<close>

definition ignoreOrder_copy :: "CompareConfig \<Rightarrow> CompareConfig" where
  "ignoreOrder_copy config =
     \<lparr>IgnoreFields = IgnoreFields config, IDFieldNames = [], IgnoreSliceOrder = True,
      CompareNumericValues = False, CustomComparators = CustomComparators config,
      TypeHandlers = TypeHandlers config, MaxDepth = MaxDepth config,
      visitedPairs = visitedPairs config, ignoreFieldsSet = ignoreFieldsSet config,
      currentDepth = currentDepth config\<rparr>"

definition compareStructs_field ::
  "dispatcher \<Rightarrow> deep_equal \<Rightarrow> heap \<Rightarrow> string \<Rightarrow> gotype \<Rightarrow> val list \<Rightarrow> nat \<Rightarrow>
    sfield \<Rightarrow> val \<Rightarrow> CompareConfig \<Rightarrow> DiffResult \<Rightarrow> outcome" where
  "compareStructs_field rec deq h path typ rvs i field leftField config res =
     (let fieldPath = (if path = [] then f_name field else path @ ''.'' @ f_name field);
          diffTag = f_diff_tag field
      in if \<not> f_exported field then Done (None, config, res)
         else if isFieldIgnored fieldPath (f_name field) typ config \<or> hasDiffTag diffTag ''ignore''
           then Done (None, config, res)
         else if length rvs \<le> i then Panic ''reflect: Field index out of range''
         else
           let rightField = rvs ! i
           in if f_kind field = KSlice then
                (if hasDiffTag diffTag ''ignoreOrder'' then
                   (case compareSlices rec deq h fieldPath leftField rightField
                           (ignoreOrder_copy config) res of
                      Done (err, modifiedConfig, res') \<Rightarrow>
                        Done (err, config\<lparr>visitedPairs := visitedPairs modifiedConfig\<rparr>, res')
                    | Panic s \<Rightarrow> Panic s
                    | Timeout \<Rightarrow> Timeout)
                 else compareSlices rec deq h fieldPath leftField rightField config res)
              else
                (case deq leftField rightField of
                   None \<Rightarrow> Timeout
                 | Some True \<Rightarrow> Done (None, config, res)
                 | Some False \<Rightarrow>
                     if f_kind field = KPointer \<or> f_kind field = KStruct \<or>
                        f_kind field = KMap \<or> f_kind field = KInterface
                       then rec config fieldPath leftField rightField res
                     else Done (None, config,
                                add_diff (StructDiff
                                   \<lparr>Path = fieldPath, Left = leftField, Right = rightField\<rparr>
                                   (f_name field) ChangeTypeUpdated) res)))"

fun compareStructs_loop ::
  "dispatcher \<Rightarrow> deep_equal \<Rightarrow> heap \<Rightarrow> string \<Rightarrow> gotype \<Rightarrow> val list \<Rightarrow> nat \<Rightarrow>
    (sfield \<times> val) list \<Rightarrow> CompareConfig \<Rightarrow> DiffResult \<Rightarrow> outcome" where
  "compareStructs_loop rec deq h path typ rvs i [] config res = Done (None, config, res)"
| "compareStructs_loop rec deq h path typ rvs i ((field, leftField) # lfs) config res =
     and_then (compareStructs_field rec deq h path typ rvs i field leftField config res)
       (compareStructs_loop rec deq h path typ rvs (Suc i) lfs)"

definition compareStructs ::
  "dispatcher \<Rightarrow> deep_equal \<Rightarrow> heap \<Rightarrow> string \<Rightarrow> val \<Rightarrow> val \<Rightarrow>
    CompareConfig \<Rightarrow> DiffResult \<Rightarrow> outcome" where
  "compareStructs rec deq h path leftVal rightVal config res =
     compareStructs_loop rec deq h path (type_of leftVal) (struct_vals rightVal) 0
       (struct_fields leftVal) config res"


subsection \<open>Type handlers\<close>

fun handler_CanHandle :: "handler \<Rightarrow> gotype \<Rightarrow> bool" where
  "handler_CanHandle TimeHandler typ = (typ = GoType KStruct time_desc)"
| "handler_CanHandle InterfaceHandler typ = (ty_kind typ = KInterface)"
| "handler_CanHandle FunctionHandler typ = (ty_kind typ = KFunc)"
| "handler_CanHandle ChannelHandler typ = (ty_kind typ = KChan)"
| "handler_CanHandle (CustomHandler can cmp) typ = can typ"

definition TimeHandler_error :: go_error where
  "TimeHandler_error = Error ''TimeHandler received non-time values''"

text \<open>
  \<^verbatim>\<open>Compare\<close> of each handler. \<^verbatim>\<open>reflect.ValueOf\<close> of an \<^verbatim>\<open>any\<close> never has kind
  Interface, so \<^verbatim>\<open>InterfaceHandler\<close> sees a value as nil exactly when it is the nil
  interface, and its \<^verbatim>\<open>Elem()\<close> is defined on pointers only.
\<close>

fun handler_Compare ::
  "dispatcher \<Rightarrow> heap \<Rightarrow> handler \<Rightarrow> val \<Rightarrow> val \<Rightarrow> string \<Rightarrow> DiffResult \<Rightarrow>
    CompareConfig \<Rightarrow> outcome" where
  "handler_Compare rec h TimeHandler left right path res config =
     (case left of
        VTime i _ \<Rightarrow>
          (case right of
             VTime j _ \<Rightarrow> Done (None, config, if i \<noteq> j then AddDiff path left right res else res)
           | _ \<Rightarrow> Done (Some TimeHandler_error, config, res))
      | _ \<Rightarrow> Done (Some TimeHandler_error, config, res))"
| "handler_Compare rec h InterfaceHandler left right path res config =
     (if left = VNil \<and> right = VNil then Done (None, config, res)
      else if left = VNil then Done (None, config, AddDiff path VNil right res)
      else if right = VNil then Done (None, config, AddDiff path left VNil res)
      else if kind_of left \<noteq> KPointer \<or> kind_of right \<noteq> KPointer
        then Panic ''reflect: call of reflect.Value.Elem on non-pointer Value''
      else if pointer_of left = 0 \<or> pointer_of right = 0
        then Panic ''reflect: call of reflect.Value.Interface on zero Value''
      else rec config path (ptr_elem h (pointer_of left)) (ptr_elem h (pointer_of right)) res)"
| "handler_Compare rec h FunctionHandler left right path res config =
     (if left = VNil \<and> right = VNil then Done (None, config, res)
      else if left = VNil \<or> right = VNil then Done (None, config, AddDiff path left right res)
      else if pointer_of left = 0 \<and> pointer_of right = 0 then Done (None, config, res)
      else if pointer_of left = 0 \<or> pointer_of right = 0
        then Done (None, config, AddDiff path left right res)
      else if pointer_of left \<noteq> pointer_of right
        then Done (None, config, AddDiff path left right res)
      else Done (None, config, res))"
| "handler_Compare rec h ChannelHandler left right path res config =
     Done (None, config, if \<not> go_eq left right then AddDiff path left right res else res)"
| "handler_Compare rec h (CustomHandler can cmp) left right path res config =
     (case cmp h left right path (Diffs res) of
        (err, ds) \<Rightarrow> Done (err, config, res\<lparr>Diffs := ds\<rparr>))"

subsection \<open>The dispatcher\<close>

text \<open>\<^verbatim>\<open>Type().Comparable()\<close> of a type that is neither a struct nor an array, the
  only ones on which the default branch of the dispatcher asks.\<close>

definition scalar_comparable :: "kind \<Rightarrow> bool" where
  "scalar_comparable k \<longleftrightarrow> k \<noteq> KFunc \<and> k \<noteq> KMap \<and> k \<noteq> KSlice"

definition path_ignored :: "CompareConfig \<Rightarrow> string \<Rightarrow> bool" where
  "path_ignored config path =
     (case ignoreFieldsSet config of
        Some s \<Rightarrow> path \<in> s
      | None \<Rightarrow> path \<in> set (IgnoreFields config))"

definition same_reference :: "val \<Rightarrow> val \<Rightarrow> bool" where
  "same_reference left right \<longleftrightarrow>
     left \<noteq> VNil \<and> right \<noteq> VNil \<and> type_of left = type_of right \<and>
     kind_of left \<in> {KPointer, KMap, KSlice, KChan, KFunc} \<and>
     pointer_of left = pointer_of right"

text \<open>The body of \<^verbatim>\<open>compareValues\<close> after the depth check.\<close>

definition compareValues_body ::
  "dispatcher \<Rightarrow> deep_equal \<Rightarrow> heap \<Rightarrow> dispatcher" where
  "compareValues_body rec deq h config path left right res =
     (if path_ignored config path then Done (None, config, res)
      else if same_reference left right then Done (None, config, res)
      else
        case handleInvalidValues path left right res of
          (True, res') \<Rightarrow> Done (None, config, res')
        | (False, _) \<Rightarrow>
            let leftType = type_of left; rightType = type_of right
            in if leftType \<noteq> rightType then
                 (if kind_of left = KPointer \<and> kind_of right = KPointer \<and>
                     pointer_of left = 0 \<and> pointer_of right = 0
                    then Done (None, config, res)
                  else if CompareNumericValues config \<and> isNumericKind (kind_of left) \<and>
                          isNumericKind (kind_of right)
                    then (if numericValuesEqual left right then Done (None, config, res)
                          else Done (None, config, AddDiff path left right res))
                  else Done (None, config, AddDiff path left right res))
               else
                 case CustomComparators config leftType of
                   Some customComparator \<Rightarrow>
                     (case customComparator h left right of
                        (equal, Some err) \<Rightarrow> Done (Some err, config, res)
                      | (equal, None) \<Rightarrow>
                          Done (None, config, if \<not> equal then AddDiff path left right res else res))
                 | None \<Rightarrow>
                     (case find (\<lambda>handler. handler_CanHandle handler leftType)
                             (TypeHandlers config) of
                        Some handler \<Rightarrow> handler_Compare rec h handler left right path res config
                      | None \<Rightarrow>
                          let leftKind = kind_of left
                          in if leftKind = KStruct
                               then compareStructs rec deq h path left right config res
                             else if leftKind = KSlice \<or> leftKind = KArray
                               then compareSlices rec deq h path left right config res
                             else if leftKind = KMap
                               then compareMaps rec deq h path left right config res
                             else if leftKind = KPointer
                               then comparePointers rec h path left right config res
                             else if scalar_comparable leftKind
                               then Done (None, config,
                                          if \<not> go_eq left right then AddDiff path left right res
                                          else res)
                             else
                               (case deq left right of
                                  None \<Rightarrow> Timeout
                                | Some equal \<Rightarrow>
                                    Done (None, config,
                                          if \<not> equal then AddDiff path left right res else res))))"

text \<open>The depth check, the increment of \<^verbatim>\<open>currentDepth\<close> and its deferred decrement.\<close>

definition compareValues_step ::
  "dispatcher \<Rightarrow> deep_equal \<Rightarrow> heap \<Rightarrow> dispatcher" where
  "compareValues_step rec deq h config path left right res =
     (if MaxDepth config > 0 then
        (if currentDepth config \<ge> MaxDepth config then Done (None, config, res)
         else
           case compareValues_body rec deq h (config\<lparr>currentDepth := currentDepth config + 1\<rparr>)
                  path left right res of
             Done (err, config', res') \<Rightarrow>
               Done (err, config'\<lparr>currentDepth := currentDepth config' - 1\<rparr>, res')
           | Panic s \<Rightarrow> Panic s
           | Timeout \<Rightarrow> Timeout)
      else compareValues_body rec deq h config path left right res)"

primrec compareValues :: "nat \<Rightarrow> heap \<Rightarrow> dispatcher" where
  "compareValues 0 h = (\<lambda>config path left right res. Timeout)"
| "compareValues (Suc n) h = compareValues_step (compareValues n h) (DeepEqual n h) h"

text \<open>\<^verbatim>\<open>Compare\<close>: the default configuration, the options in order, the set of the
  ignored fields, and the traversal from the empty path. Its two results are
  \<^verbatim>\<open>*DiffResult\<close> and \<^verbatim>\<open>error\<close>, each of which may be nil.\<close>

definition Compare ::
  "nat \<Rightarrow> heap \<Rightarrow> val \<Rightarrow> val \<Rightarrow> CompareOption list \<Rightarrow> (DiffResult option \<times> go_error option) run" where
  "Compare n h left right opts =
     (let config0 = fold (\<lambda>opt c. opt c) opts DefaultCompareConfig;
          config1 = (if ignoreFieldsSet config0 = None \<and> length (IgnoreFields config0) > 0
                     then config0\<lparr>ignoreFieldsSet := Some (set (IgnoreFields config0))\<rparr>
                     else config0);
          config = config1\<lparr>currentDepth := 0\<rparr>
      in case compareValues n h config [] left right \<lparr>Diffs = []\<rparr> of
           Done (Some err, _, _) \<Rightarrow> Done (None, Some err)
         | Done (None, _, result) \<Rightarrow> Done (Some result, None)
         | Panic s \<Rightarrow> Panic s
         | Timeout \<Rightarrow> Timeout)"


section \<open>Identity fields (\<^verbatim>\<open>compare.go\<close>)\<close>

text \<open>
  The revision in \<^verbatim>\<open>compare.go\<close> opens \<^verbatim>\<open>compareStructs\<close> with the identity check
  of \<^verbatim>\<open>getObjectID\<close>; the revision with the options API has no such check. Both are
  modelled. The zero value \<^verbatim>\<open>reflect.Zero(t).Interface()\<close> of a field is nil for
  a field of interface type and the zero of the value's own type otherwise; an instant
  is counted from the zero \<^verbatim>\<open>time.Time\<close>.
\<close>

fun zero_val :: "val \<Rightarrow> val" where
  "zero_val VNil = VNil"
| "zero_val (VBool d _) = VBool d False"
| "zero_val (VInt k d _) = VInt k d 0"
| "zero_val (VUint k d _) = VUint k d 0"
| "zero_val (VFloat k d _) = VFloat k d (FFin 0)"
| "zero_val (VComplex k d _ _) = VComplex k d (FFin 0) (FFin 0)"
| "zero_val (VString d _) = VString d []"
| "zero_val (VUnsafePointer d _) = VUnsafePointer d 0"
| "zero_val (VChan d _) = VChan d 0"
| "zero_val (VFunc d _) = VFunc d 0"
| "zero_val (VPtr d _) = VPtr d 0"
| "zero_val (VMap d _) = VMap d 0"
| "zero_val (VSlice d _) = VSlice d 0"
| "zero_val (VArray d xs) = VArray d (map zero_val xs)"
| "zero_val (VStruct d fs) =
     VStruct d (map (\<lambda>p. (fst p, if f_kind (fst p) = KInterface then VNil else zero_val (snd p))) fs)"
| "zero_val (VTime _ _) = VTime 0 0"

definition field_zero :: "sfield \<Rightarrow> val \<Rightarrow> val" where
  "field_zero field v = (if f_kind field = KInterface then VNil else zero_val v)"

text \<open>The first loop of \<^verbatim>\<open>getObjectID\<close>: the first exported field tagged
  \<^verbatim>\<open>diff:"id"\<close> whose value is not the zero value. The outer \<open>None\<close> is the fuel
  of \<^verbatim>\<open>DeepEqual\<close>.\<close>

fun tagged_id :: "deep_equal \<Rightarrow> (sfield \<times> val) list \<Rightarrow> val option option" where
  "tagged_id deq [] = Some None"
| "tagged_id deq ((field, fieldValue) # fs) =
     (if f_exported field \<and> hasDiffTag (f_diff_tag field) ''id'' then
        (case deq fieldValue (field_zero field fieldValue) of
           None \<Rightarrow> None
         | Some False \<Rightarrow> Some (Some fieldValue)
         | Some True \<Rightarrow> tagged_id deq fs)
      else tagged_id deq fs)"

text \<open>The second loop, over \<^verbatim>\<open>config.IDFieldNames\<close>. \<^verbatim>\<open>FieldByName\<close> is modelled on
  the struct's own fields (not on fields promoted from embedded structs).\<close>

fun named_id :: "deep_equal \<Rightarrow> (sfield \<times> val) list \<Rightarrow> string list \<Rightarrow> val option option" where
  "named_id deq fs [] = Some None"
| "named_id deq fs (idFieldName # names) =
     (case find (\<lambda>p. f_name (fst p) = idFieldName) fs of
        Some (field, fieldValue) \<Rightarrow>
          if f_exported field then
            (case deq fieldValue (field_zero field fieldValue) of
               None \<Rightarrow> None
             | Some False \<Rightarrow> Some (Some fieldValue)
             | Some True \<Rightarrow> named_id deq fs names)
          else named_id deq fs names
      | None \<Rightarrow> named_id deq fs names)"

definition getObjectID ::
  "deep_equal \<Rightarrow> heap \<Rightarrow> val \<Rightarrow> CompareConfig \<Rightarrow> (val \<times> bool) option" where
  "getObjectID deq h obj config =
     (if obj = VNil then Some (VNil, False)
      else if kind_of obj = KPointer \<and> pointer_of obj = 0 then Some (VNil, False)
      else
        let v = (if kind_of obj = KPointer then ptr_elem h (pointer_of obj) else obj)
        in if kind_of v \<noteq> KStruct then Some (VNil, False)
           else
             case tagged_id deq (struct_fields v) of
               None \<Rightarrow> None
             | Some (Some idv) \<Rightarrow> Some (idv, True)
             | Some None \<Rightarrow>
                 (case named_id deq (struct_fields v) (IDFieldNames config) of
                    None \<Rightarrow> None
                  | Some (Some idv) \<Rightarrow> Some (idv, True)
                  | Some None \<Rightarrow> Some (VNil, False)))"

definition isFieldIgnored_compare_go ::
  "string \<Rightarrow> string \<Rightarrow> gotype \<Rightarrow> CompareConfig \<Rightarrow> bool" where
  "isFieldIgnored_compare_go fieldPath fieldName structType config =
     (if length (IgnoreFields config) = 0 then False
      else if fieldPath \<in> set (IgnoreFields config) then True
      else if fieldName \<in> set (IgnoreFields config) then True
      else if td_name (ty_desc structType) \<noteq> [] \<and>
              td_name (ty_desc structType) @ ''.'' @ fieldName \<in> set (IgnoreFields config)
        then True
      else False)"

definition ignoreOrder_copy_compare_go :: "CompareConfig \<Rightarrow> CompareConfig" where
  "ignoreOrder_copy_compare_go config =
     \<lparr>IgnoreFields = IgnoreFields config, IDFieldNames = IDFieldNames config,
      IgnoreSliceOrder = True, CompareNumericValues = False,
      CustomComparators = CustomComparators config, TypeHandlers = TypeHandlers config,
      MaxDepth = 0, visitedPairs = visitedPairs config, ignoreFieldsSet = None,
      currentDepth = 0\<rparr>"

text \<open>The field loop of \<^verbatim>\<open>compareStructs\<close> in \<^verbatim>\<open>compare.go\<close> (lines 193 to 262):
  its body for field \<open>i\<close>, then the loop.\<close>

definition compareStructs_compare_go_field ::
  "dispatcher \<Rightarrow> deep_equal \<Rightarrow> heap \<Rightarrow> string \<Rightarrow> gotype \<Rightarrow> val list \<Rightarrow> nat \<Rightarrow>
    sfield \<Rightarrow> val \<Rightarrow> CompareConfig \<Rightarrow> DiffResult \<Rightarrow> outcome" where
  "compareStructs_compare_go_field rec deq h path typ rvs i field leftField config res =
     (let fieldPath = (if path = [] then f_name field else path @ ''.'' @ f_name field);
          diffTag = f_diff_tag field
      in if \<not> f_exported field then Done (None, config, res)
         else if isFieldIgnored_compare_go fieldPath (f_name field) typ config \<or>
                 hasDiffTag diffTag ''ignore''
           then Done (None, config, res)
         else if length rvs \<le> i then Panic ''reflect: Field index out of range''
         else
           let rightField = rvs ! i
           in if f_kind field = KSlice then
                (if hasDiffTag diffTag ''ignoreOrder'' then
                   (case compareSlices rec deq h fieldPath leftField rightField
                           (ignoreOrder_copy_compare_go config) res of
                      Done (err, modifiedConfig, res') \<Rightarrow>
                        Done (err, config\<lparr>visitedPairs := visitedPairs modifiedConfig\<rparr>, res')
                    | Panic s \<Rightarrow> Panic s
                    | Timeout \<Rightarrow> Timeout)
                 else compareSlices rec deq h fieldPath leftField rightField config res)
              else
                (case deq leftField rightField of
                   None \<Rightarrow> Timeout
                 | Some True \<Rightarrow> Done (None, config, res)
                 | Some False \<Rightarrow>
                     if f_kind field = KPointer \<or> f_kind field = KStruct \<or>
                        f_kind field = KMap \<or> f_kind field = KInterface
                       then rec config fieldPath leftField rightField res
                     else Done (None, config,
                                add_diff (StructDiff
                                   \<lparr>Path = fieldPath, Left = leftField, Right = rightField\<rparr>
                                   (f_name field) ChangeTypeUpdated) res)))"

fun compareStructs_compare_go_loop ::
  "dispatcher \<Rightarrow> deep_equal \<Rightarrow> heap \<Rightarrow> string \<Rightarrow> gotype \<Rightarrow> val list \<Rightarrow> nat \<Rightarrow>
    (sfield \<times> val) list \<Rightarrow> CompareConfig \<Rightarrow> DiffResult \<Rightarrow> outcome" where
  "compareStructs_compare_go_loop rec deq h path typ rvs i [] config res = Done (None, config, res)"
| "compareStructs_compare_go_loop rec deq h path typ rvs i ((field, leftField) # lfs) config res =
     and_then (compareStructs_compare_go_field rec deq h path typ rvs i field leftField config res)
       (compareStructs_compare_go_loop rec deq h path typ rvs (Suc i) lfs)"

definition compareStructs_compare_go ::
  "dispatcher \<Rightarrow> deep_equal \<Rightarrow> heap \<Rightarrow> string \<Rightarrow> val \<Rightarrow> val \<Rightarrow>
    CompareConfig \<Rightarrow> DiffResult \<Rightarrow> outcome" where
  "compareStructs_compare_go rec deq h path leftVal rightVal config res =
     (case getObjectID deq h leftVal config of
        None \<Rightarrow> Timeout
      | Some (leftID, leftHasID) \<Rightarrow>
          (case getObjectID deq h rightVal config of
             None \<Rightarrow> Timeout
           | Some (rightID, rightHasID) \<Rightarrow>
               let fields_compared =
                     compareStructs_compare_go_loop rec deq h path (type_of leftVal)
                       (struct_vals rightVal) 0 (struct_fields leftVal) config res
               in if leftHasID \<and> rightHasID then
                    (case deq leftID rightID of
                       None \<Rightarrow> Timeout
                     | Some False \<Rightarrow>
                         Done (None, config,
                               add_diff (StructDiff
                                  \<lparr>Path = path, Left = leftVal, Right = rightVal\<rparr>
                                  [] ChangeTypeIDMismatch) res)
                     | Some True \<Rightarrow> fields_compared)
                  else fields_compared))"


section \<open>Values of the scenarios\<close>

definition go_int :: "int \<Rightarrow> val" where
  "go_int n = VInt I0 (TDesc ''int'' ''int'' False) n"

definition go_string :: "string \<Rightarrow> val" where
  "go_string s = VString (TDesc ''string'' ''string'' False) s"

section \<open>Properties\<close>

subsection \<open>Auxiliary facts\<close>

lemma path_ignored_depth [simp]:
  "path_ignored (config\<lparr>currentDepth := d\<rparr>) path = path_ignored config path"
  by (simp add: path_ignored_def split: option.splits)

lemma DeepEqual_go_int [simp]: "DeepEqual (Suc n) h (go_int i) (go_int j) = Some (i = j)"
  by (simp add: DeepEqual_def go_int_def deepValueEqual_step_def type_of_def hard_def)

lemma no_default_handler:
  "k \<notin> {KStruct, KInterface, KFunc, KChan} \<Longrightarrow>
   find (\<lambda>handler. handler_CanHandle handler (GoType k d)) DefaultTypeHandlers = None"
  by (auto simp add: DefaultTypeHandlers_def)

subsection \<open>The depth limit\<close>

text \<open>
  C6. When \<^verbatim>\<open>MaxDepth\<close> is greater than 0, an invocation of the dispatcher whose
  current depth has reached \<^verbatim>\<open>MaxDepth\<close> returns at once with a nil error: no diff
  is appended, and the configuration is as it was. The values are not looked at, so
  whatever lies below the limit counts as equal.
\<close>

theorem depth_limit_returns:
  assumes "MaxDepth config > 0" and "currentDepth config \<ge> MaxDepth config"
  shows "compareValues (Suc n) h config path left right res = Done (None, config, res)"
  using assms by (simp add: compareValues_step_def)

theorem depth_limit_returns_witness:
  "MaxDepth (DefaultCompareConfig\<lparr>MaxDepth := 1, currentDepth := 1\<rparr>) > 0 \<and>
   currentDepth (DefaultCompareConfig\<lparr>MaxDepth := 1, currentDepth := 1\<rparr>)
     \<ge> MaxDepth (DefaultCompareConfig\<lparr>MaxDepth := 1, currentDepth := 1\<rparr>) \<and>
   compareValues (Suc 0) (\<lambda>a. None) (DefaultCompareConfig\<lparr>MaxDepth := 1, currentDepth := 1\<rparr>)
     ''Next'' (go_string ''a'') (go_string ''b'') \<lparr>Diffs = []\<rparr>
   = Done (None, DefaultCompareConfig\<lparr>MaxDepth := 1, currentDepth := 1\<rparr>, \<lparr>Diffs = []\<rparr>)"
  using depth_limit_returns
    [of "DefaultCompareConfig\<lparr>MaxDepth := 1, currentDepth := 1\<rparr>" 0 "\<lambda>a. None" "''Next''"
        "go_string ''a''" "go_string ''b''" "\<lparr>Diffs = []\<rparr>"]
  by simp

subsection \<open>Values of different types\<close>

text \<open>
  C4. For two non-nil values of different run-time types that are not both nil
  pointers, with the comparison of numeric values across types switched off, the path
  not ignored and the depth limit not reached, the dispatcher appends exactly one base
  \<^verbatim>\<open>Diff\<close> that carries both values, and returns. It does so whatever the recursive
  call and \<^verbatim>\<open>DeepEqual\<close> would do: neither value is entered.
\<close>

theorem type_mismatch_one_diff:
  assumes "left \<noteq> VNil" and "right \<noteq> VNil"
    and "type_of left \<noteq> type_of right"
    and "\<not> (kind_of left = KPointer \<and> kind_of right = KPointer \<and>
            pointer_of left = 0 \<and> pointer_of right = 0)"
    and "\<not> CompareNumericValues config"
    and "\<not> path_ignored config path"
    and "\<not> (MaxDepth config > 0 \<and> currentDepth config \<ge> MaxDepth config)"
  shows "compareValues_step rec deq h config path left right res
           = Done (None, config,
                   res\<lparr>Diffs := Diffs res @ [BaseDiff \<lparr>Path = path, Left = left, Right = right\<rparr>]\<rparr>)
         \<and> compareValues (Suc n) h config path left right res
           = Done (None, config,
                   res\<lparr>Diffs := Diffs res @ [BaseDiff \<lparr>Path = path, Left = left, Right = right\<rparr>]\<rparr>)"
proof -
  have body: "compareValues_body r d h c path left right res
           = Done (None, c, AddDiff path left right res)"
    if "\<not> path_ignored c path" "\<not> CompareNumericValues c" for c r d
    using that assms(1-4)
    by (auto simp add: compareValues_body_def same_reference_def handleInvalidValues_def)
  have step: "compareValues_step r d h config path left right res
           = Done (None, config,
                   res\<lparr>Diffs := Diffs res @ [BaseDiff \<lparr>Path = path, Left = left, Right = right\<rparr>]\<rparr>)"
    for r d
    using assms(5-7) body [of config r d]
      body [of "config\<lparr>currentDepth := currentDepth config + 1\<rparr>" r d]
    by (auto simp add: compareValues_step_def AddDiff_def)
  show ?thesis using step by simp
qed

theorem type_mismatch_one_diff_witness:
  "compareValues (Suc 0) (\<lambda>a. None) DefaultCompareConfig [] (go_int 42) (go_string ''42'')
     \<lparr>Diffs = []\<rparr>
   = Done (None, DefaultCompareConfig,
           \<lparr>Diffs = [BaseDiff \<lparr>Path = [], Left = go_int 42, Right = go_string ''42''\<rparr>]\<rparr>)"
proof -
  have "go_int 42 \<noteq> VNil" "go_string ''42'' \<noteq> VNil"
    "type_of (go_int 42) \<noteq> type_of (go_string ''42'')"
    "\<not> (kind_of (go_int 42) = KPointer \<and> kind_of (go_string ''42'') = KPointer \<and>
        pointer_of (go_int 42) = 0 \<and> pointer_of (go_string ''42'') = 0)"
    "\<not> CompareNumericValues DefaultCompareConfig"
    "\<not> path_ignored DefaultCompareConfig []"
    "\<not> (MaxDepth DefaultCompareConfig > 0 \<and>
        currentDepth DefaultCompareConfig \<ge> MaxDepth DefaultCompareConfig)"
    by (simp_all add: go_int_def go_string_def type_of_def DefaultCompareConfig_def
        path_ignored_def)
  from type_mismatch_one_diff [OF this, of undefined undefined "\<lambda>a. None" "\<lparr>Diffs = []\<rparr>" 0]
  show ?thesis by simp
qed

subsection \<open>Slices compared without order\<close>

text \<open>
  C3. With \<^verbatim>\<open>WithIgnoreSliceOrder\<close>, comparing the \<^verbatim>\<open>[]int\<close> slices
  \<^verbatim>\<open>[1,2,2,3]\<close> and \<^verbatim>\<open>[3,2,1,2]\<close> yields no diff, and comparing \<^verbatim>\<open>[1,2,2,3]\<close> with
  \<^verbatim>\<open>[1,2,3,3]\<close> yields exactly two base diffs, which carry no index: one with left
  value 2 and no right value, one with right value 3 and no left value.
\<close>

theorem unordered_int_slices:
  assumes "slice_elems h a = map go_int [1, 2, 2, 3]"
    and "slice_elems h b = map go_int [3, 2, 1, 2]"
    and "slice_elems h c = map go_int [1, 2, 3, 3]"
  shows "Compare (Suc (Suc n)) h (VSlice d a) (VSlice d b) [WithIgnoreSliceOrder]
           = Done (Some \<lparr>Diffs = []\<rparr>, None) \<and>
         Compare (Suc (Suc n)) h (VSlice d a) (VSlice d c) [WithIgnoreSliceOrder]
           = Done (Some \<lparr>Diffs = [BaseDiff \<lparr>Path = [], Left = go_int 2, Right = VNil\<rparr>,
                                   BaseDiff \<lparr>Path = [], Left = VNil, Right = go_int 3\<rparr>]\<rparr>, None)"
proof -
  have ab: "a \<noteq> b"
  proof
    assume "a = b"
    then have "slice_elems h a = slice_elems h b" by (rule arg_cong)
    then show False unfolding assms(1,2) go_int_def by simp
  qed
  have ac: "a \<noteq> c"
  proof
    assume "a = c"
    then have "slice_elems h a = slice_elems h c" by (rule arg_cong)
    then show False unfolding assms(1,3) go_int_def by simp
  qed
  have 1: "compareSlicesUnordered (DeepEqual (Suc n) h) h [] (VSlice d a) (VSlice d b) \<lparr>Diffs = []\<rparr>
        = Done \<lparr>Diffs = []\<rparr>"
    using assms by (simp add: compareSlicesUnordered_def numeral_eq_Suc)
  have 2: "compareSlicesUnordered (DeepEqual (Suc n) h) h [] (VSlice d a) (VSlice d c) \<lparr>Diffs = []\<rparr>
        = Done \<lparr>Diffs = [BaseDiff \<lparr>Path = [], Left = go_int 2, Right = VNil\<rparr>,
                         BaseDiff \<lparr>Path = [], Left = VNil, Right = go_int 3\<rparr>]\<rparr>"
    using assms by (simp add: compareSlicesUnordered_def numeral_eq_Suc)
  have adv: "compareSlicesAdvanced (DeepEqual (Suc n) h) h [] (VSlice d a) (VSlice d x) \<lparr>Diffs = []\<rparr>
       = compareSlicesUnordered (DeepEqual (Suc n) h) h [] (VSlice d a) (VSlice d x) \<lparr>Diffs = []\<rparr>"
    if "length (slice_elems h x) = 4" for x
    using assms(1) that
    by (simp add: compareSlicesAdvanced_def compareSlicesByValue_def compareSlicesSimple_def
        compareSlicesWithDeepEqual_def type_of_def)
  have cmp: "Compare (Suc (Suc n)) h (VSlice d a) (VSlice d x) [WithIgnoreSliceOrder]
      = (case compareSlicesUnordered (DeepEqual (Suc n) h) h [] (VSlice d a) (VSlice d x)
                \<lparr>Diffs = []\<rparr> of
           Done r \<Rightarrow> Done (Some r, None) | Panic s \<Rightarrow> Panic s | Timeout \<Rightarrow> Timeout)"
    if "length (slice_elems h x) = 4" "a \<noteq> x" for x
    using that adv [OF that(1)]
    by (simp add: Compare_def DefaultCompareConfig_def WithIgnoreSliceOrder_def
        compareValues_step_def compareValues_body_def path_ignored_def same_reference_def
        handleInvalidValues_def type_of_def no_default_handler compareSlices_def returns_nil_def
        split: run.splits)
  show ?thesis using cmp [of b] cmp [of c] ab ac 1 2 assms by simp
qed

theorem unordered_int_slices_witness:
  "Compare 2 [1 \<mapsto> CArr (map go_int [1, 2, 2, 3]), 2 \<mapsto> CArr (map go_int [3, 2, 1, 2]),
              3 \<mapsto> CArr (map go_int [1, 2, 3, 3])]
     (VSlice (TDesc ''[]int'' [] True) 1) (VSlice (TDesc ''[]int'' [] True) 2)
     [WithIgnoreSliceOrder]
   = Done (Some \<lparr>Diffs = []\<rparr>, None) \<and>
   Compare 2 [1 \<mapsto> CArr (map go_int [1, 2, 2, 3]), 2 \<mapsto> CArr (map go_int [3, 2, 1, 2]),
              3 \<mapsto> CArr (map go_int [1, 2, 3, 3])]
     (VSlice (TDesc ''[]int'' [] True) 1) (VSlice (TDesc ''[]int'' [] True) 3)
     [WithIgnoreSliceOrder]
   = Done (Some \<lparr>Diffs = [BaseDiff \<lparr>Path = [], Left = go_int 2, Right = VNil\<rparr>,
                           BaseDiff \<lparr>Path = [], Left = VNil, Right = go_int 3\<rparr>]\<rparr>, None)"
proof -
  let ?h = "[1 \<mapsto> CArr (map go_int [1, 2, 2, 3]), 2 \<mapsto> CArr (map go_int [3, 2, 1, 2]),
             3 \<mapsto> CArr (map go_int [1, 2, 3, 3])] :: heap"
  have "slice_elems ?h 1 = map go_int [1, 2, 2, 3]" "slice_elems ?h 2 = map go_int [3, 2, 1, 2]"
    "slice_elems ?h 3 = map go_int [1, 2, 3, 3]"
    by (simp_all add: slice_elems_def)
  from unordered_int_slices [OF this, of 0 "TDesc ''[]int'' [] True"]
  show ?thesis by (simp add: numeral_2_eq_2)
qed

end
